theory Spec2Isabelle
  imports Complex_Main
begin

section \<open>Texts, characters and Python's string primitives\<close>

text \<open>
  A text is a Python \<open>str\<close>. It is modelled as a \<open>string\<close> whose characters are code
  points below 256, so \<open>length\<close> is Python's \<open>len\<close> on such a text, and the character
  classes below are exactly those of Python's \<open>re\<close> and \<open>str\<close> on that range.
  Python's floats are modelled as reals; the claims below depend on the order of
  numbers and on values that floats represent exactly, never on rounding.
\<close>

definition NOT_APPLICABLE :: string where
  "NOT_APPLICABLE = ''N/A''"

datatype error = ZeroDivisionError | KeyError | IndexError

text \<open>The class \<open>[A-Za-z0-9]\<close>.\<close>

definition is_alpha_numeric :: "char \<Rightarrow> bool" where
  "is_alpha_numeric c =
     (let n = (of_char c :: nat)
      in (65 \<le> n \<and> n \<le> 90) \<or> (97 \<le> n \<and> n \<le> 122) \<or> (48 \<le> n \<and> n \<le> 57))"

text \<open>The class \<open>[0-9]\<close>.\<close>

definition is_digit :: "char \<Rightarrow> bool" where
  "is_digit c = (let n = (of_char c :: nat) in 48 \<le> n \<and> n \<le> 57)"

text \<open>
  The class \<open>\w\<close> of a \<open>str\<close> pattern: the underscore and every character Python calls
  alphanumeric, which below 256 are the ASCII letters and digits, the letters of
  Latin-1 and its superscript digits, fractions, ordinal indicators and micro sign.
\<close>

definition is_word_char :: "char \<Rightarrow> bool" where
  "is_word_char c =
     (let n = (of_char c :: nat)
      in is_alpha_numeric c \<or> n = 95 \<or> n = 170 \<or> n = 178 \<or> n = 179 \<or> n = 181 \<or> n = 185
         \<or> n = 186 \<or> (188 \<le> n \<and> n \<le> 190) \<or> (192 \<le> n \<and> n \<le> 214)
         \<or> (216 \<le> n \<and> n \<le> 246) \<or> 248 \<le> n)"

text \<open>\<open>str.isspace\<close> on one character.\<close>

definition is_space :: "char \<Rightarrow> bool" where
  "is_space c =
     (let n = (of_char c :: nat)
      in (9 \<le> n \<and> n \<le> 13) \<or> (28 \<le> n \<and> n \<le> 32) \<or> n = 133 \<or> n = 160)"

text \<open>\<open>str.strip()\<close>: whitespace removed at both ends.\<close>

definition strip :: "string \<Rightarrow> string" where
  "strip s = rev (dropWhile is_space (rev (dropWhile is_space s)))"

text \<open>\<open>str.lower()\<close>: below 256 every upper-case letter lies 32 under its lower-case one.\<close>

definition lower_char :: "char \<Rightarrow> char" where
  "lower_char c =
     (let n = (of_char c :: nat)
      in if (65 \<le> n \<and> n \<le> 90) \<or> (192 \<le> n \<and> n \<le> 214) \<or> (216 \<le> n \<and> n \<le> 222)
         then char_of (n + 32) else c)"

definition lower :: "string \<Rightarrow> string" where
  "lower s = map lower_char s"

text \<open>\<open>sub in s\<close> on strings: \<open>sub\<close> occurs in \<open>s\<close> as a contiguous piece.\<close>

fun is_in :: "string \<Rightarrow> string \<Rightarrow> bool" where
  "is_in sub [] = (sub = [])"
| "is_in sub (c # cs) = (take (length sub) (c # cs) = sub \<or> is_in sub cs)"

text \<open>\<open>string.punctuation\<close>, the 32 ASCII punctuation characters in code order.\<close>

definition string_punctuation :: string where
  "string_punctuation =
     [CHR 0x21, CHR 0x22, CHR 0x23, CHR 0x24, CHR 0x25, CHR 0x26, CHR 0x27, CHR 0x28,
      CHR 0x29, CHR 0x2A, CHR 0x2B, CHR 0x2C, CHR 0x2D, CHR 0x2E, CHR 0x2F, CHR 0x3A,
      CHR 0x3B, CHR 0x3C, CHR 0x3D, CHR 0x3E, CHR 0x3F, CHR 0x40, CHR 0x5B, CHR 0x5C,
      CHR 0x5D, CHR 0x5E, CHR 0x5F, CHR 0x60, CHR 0x7B, CHR 0x7C, CHR 0x7D, CHR 0x7E]"

section \<open>Summarisers\<close>

definition sentiment_polarity_summarised :: "string \<Rightarrow> string" where
  "sentiment_polarity_summarised polarity =
     (if is_in ''negative'' (lower polarity) then ''Negative''
      else if is_in ''positive'' (lower polarity) then ''Positive''
      else polarity)"

definition sentiment_subjectivity_summarised :: "string \<Rightarrow> string" where
  "sentiment_subjectivity_summarised sentiment_subjectivity =
     (if is_in ''/'' sentiment_subjectivity then sentiment_subjectivity
      else if is_in ''subjective'' (lower sentiment_subjectivity) then ''Subjective''
      else ''Objective'')"

definition spelling_quality_summarised :: "string \<Rightarrow> string" where
  "spelling_quality_summarised spelling_quality =
     (if is_in ''good'' (lower spelling_quality) then ''Good'' else ''Bad'')"

section \<open>Slab classifiers\<close>

text \<open>
  A slab is a row \<open>[label, lower bound, upper bound]\<close> of one of the three tables. A
  score is what the \<open>*_score\<close> functions hand over: the sentinel \<open>NOT_APPLICABLE\<close> or a
  number.
\<close>

type_synonym slab = "string \<times> int \<times> int"

datatype score = NotApplicable | Num real

definition sentiment_polarity_to_words_mapping :: "slab list" where
  "sentiment_polarity_to_words_mapping =
     [(''Very positive'', 99, 100),
      (''Quite positive'', 87, 99),
      (''Pretty positive'', 51, 87),
      (''Neutral'', 49, 51),
      (''Pretty negative'', 12, 49),
      (''Quite negative'', 2, 12),
      (''Very negative'', 0, 2)]"

definition sentiment_subjectivity_to_words_mapping :: "slab list" where
  "sentiment_subjectivity_to_words_mapping =
     [(''Very subjective'', 99, 100),
      (''Quite subjective'', 87, 99),
      (''Pretty subjective'', 63, 87),
      (''Objective/subjective'', 40, 63),
      (''Pretty objective'', 12, 40),
      (''Quite objective'', 2, 12),
      (''Very objective'', 0, 2)]"

definition spelling_quality_score_to_words_mapping :: "slab list" where
  "spelling_quality_score_to_words_mapping =
     [(''Very good'', 99, 100),
      (''Quite good'', 90, 99),
      (''Good'', 87, 90),
      (''Pretty good'', 63, 87),
      (''Bad'', 40, 63),
      (''Pretty bad'', 12, 40),
      (''Quite bad'', 2, 12),
      (''Very bad'', 0, 2)]"

text \<open>
  The loop \<open>for each_slab in table: if lo <= score <= hi: return label\<close>. Falling off
  the end of the loop returns Python's \<open>None\<close>, which is \<open>None\<close> here.
\<close>

fun scan_slabs :: "slab list \<Rightarrow> real \<Rightarrow> string option" where
  "scan_slabs [] score = None"
| "scan_slabs ((label, lo, hi) # rest) score =
     (if score \<ge> real_of_int lo \<and> score \<le> real_of_int hi then Some label
      else scan_slabs rest score)"

fun sentiment_polarity :: "score \<Rightarrow> string option" where
  "sentiment_polarity NotApplicable = Some NOT_APPLICABLE"
| "sentiment_polarity (Num score) =
     scan_slabs sentiment_polarity_to_words_mapping ((score + 1) / 2 * 100)"

fun sentiment_subjectivity :: "score \<Rightarrow> string option" where
  "sentiment_subjectivity NotApplicable = Some NOT_APPLICABLE"
| "sentiment_subjectivity (Num score) =
     scan_slabs sentiment_subjectivity_to_words_mapping (score * 100)"

fun spelling_quality :: "score \<Rightarrow> string option" where
  "spelling_quality NotApplicable = Some NOT_APPLICABLE"
| "spelling_quality (Num score) =
     scan_slabs spelling_quality_score_to_words_mapping (score * 100)"

section \<open>Character counters\<close>

text \<open>
  \<open>re.findall\<close> with a pattern that is one character class returns the matching
  characters of the text in order, each as a string of length one.
\<close>

definition gather_alpha_numeric :: "string \<Rightarrow> string list" where
  "gather_alpha_numeric text = map (\<lambda>c. [c]) (filter is_alpha_numeric text)"

definition count_alpha_numeric :: "string \<Rightarrow> nat" where
  "count_alpha_numeric text = length (gather_alpha_numeric text)"

definition gather_non_alpha_numeric :: "string \<Rightarrow> string list" where
  "gather_non_alpha_numeric text = map (\<lambda>c. [c]) (filter (\<lambda>c. \<not> is_alpha_numeric c) text)"

definition count_non_alpha_numeric :: "string \<Rightarrow> nat" where
  "count_non_alpha_numeric text = length (gather_non_alpha_numeric text)"

text \<open>The column \<open>characters_count\<close> is Python's \<open>len\<close> of the text.\<close>

definition characters_count :: "string \<Rightarrow> nat" where
  "characters_count text = length text"

section \<open>Sentences\<close>

text \<open>
  \<open>re.findall(r'([^.]*[^.]*)', text)\<close>. The pattern matches the longest run of
  characters other than \<open>.\<close> at the position of the search, also the empty one. After
  a match that is not empty the search goes on where the match ended; after an empty
  match it goes on one character later, and it stops after the empty match at the end
  of the text.
\<close>

function findall_non_dots :: "string \<Rightarrow> string list" where
  "findall_non_dots [] = [[]]"
| "findall_non_dots (c # cs) =
     (if c = CHR ''.'' then [] # findall_non_dots cs
      else (c # takeWhile (\<lambda>x. x \<noteq> CHR ''.'') cs)
             # findall_non_dots (dropWhile (\<lambda>x. x \<noteq> CHR ''.'') cs))"
  by pat_completeness auto
termination
  by (relation "measure length") (auto simp: le_imp_less_Suc length_dropWhile_le)

text \<open>
  The loop \<open>for index, each in enumerate(lines): if each == '': del lines[index]\<close>.
  The iterator reads \<open>lines[index]\<close> of the list as it is now and stops when \<open>index\<close>
  reaches its present length; \<open>del\<close> moves the later elements one place down while
  \<open>index\<close> still goes up by one.
\<close>

function delete_blanks_loop :: "nat \<Rightarrow> string list \<Rightarrow> string list" where
  "delete_blanks_loop index lines =
     (if index < length lines
      then (if lines ! index = []
            then delete_blanks_loop (Suc index) (take index lines @ drop (Suc index) lines)
            else delete_blanks_loop (Suc index) lines)
      else lines)"
  by pat_completeness auto
termination
  by (relation "measure (\<lambda>(index, lines). length lines - index)") auto

definition gather_sentences :: "string \<Rightarrow> string list" where
  "gather_sentences text = delete_blanks_loop 0 (findall_non_dots text)"

definition count_sentences :: "string \<Rightarrow> nat" where
  "count_sentences text = length (gather_sentences text)"

text \<open>
  The sentence count in the words of the specification, to compare with: the text is
  split on \<open>.\<close> into the runs between, before and after the separators, and every
  blank run is dropped.
\<close>

fun split_on_dot :: "string \<Rightarrow> string list" where
  "split_on_dot [] = [[]]"
| "split_on_dot (c # cs) =
     (if c = CHR ''.'' then [] # split_on_dot cs
      else (case split_on_dot cs of
              [] \<Rightarrow> [[c]]
            | run # runs \<Rightarrow> (c # run) # runs))"

definition spec_count_sentences :: "string \<Rightarrow> nat" where
  "spec_count_sentences text = length (filter (\<lambda>run. run \<noteq> []) (split_on_dot text))"

section \<open>Spelling quality score\<close>

text \<open>
  The tokenizer \<open>word_tokenize\<close> and the spell checker \<open>Word(w).spellcheck()\<close> belong to
  other libraries and are parameters. The spell checker returns a list of pairs of a
  word and a confidence, of which the code reads the first; on an empty list that read
  raises \<open>IndexError\<close>. Both divisions raise \<open>ZeroDivisionError\<close> on a zero divisor.
\<close>

fun spellcheck_loop ::
  "(string \<Rightarrow> (string \<times> real) list) \<Rightarrow> string list \<Rightarrow> nat \<Rightarrow> nat \<Rightarrow> error + (nat \<times> nat)" where
  "spellcheck_loop spellcheck [] misspelt_words_count total_words_checks =
     Inr (misspelt_words_count, total_words_checks)"
| "spellcheck_loop spellcheck (each_word # rest) misspelt_words_count total_words_checks =
     (if is_in each_word string_punctuation
      then spellcheck_loop spellcheck rest misspelt_words_count total_words_checks
      else (case spellcheck each_word of
              [] \<Rightarrow> Inl IndexError
            | (_, score) # _ \<Rightarrow>
                spellcheck_loop spellcheck rest
                  (if score \<noteq> 1 then misspelt_words_count + 1 else misspelt_words_count)
                  (total_words_checks + 1)))"

definition spelling_quality_score ::
  "(string \<Rightarrow> string list) \<Rightarrow> (string \<Rightarrow> (string \<times> real) list) \<Rightarrow> string \<Rightarrow> error + score" where
  "spelling_quality_score word_tokenize spellcheck text =
     (if text = [] \<or> length (strip text) = 0 then Inr NotApplicable
      else (case spellcheck_loop spellcheck (word_tokenize (lower text)) 0 0 of
              Inl e \<Rightarrow> Inl e
            | Inr (misspelt_words_count, total_words_checks) \<Rightarrow>
                (let num_of_sentences = count_sentences text
                 in if num_of_sentences = 0 then Inl ZeroDivisionError
                    else (let avg_words_per_sentence =
                                real total_words_checks / real num_of_sentences
                          in if avg_words_per_sentence = 0 then Inl ZeroDivisionError
                             else (let result =
                                         (avg_words_per_sentence - real misspelt_words_count)
                                           / avg_words_per_sentence
                                   in Inr (Num (if result \<ge> 0 then result else 0)))))))"

section \<open>Emojis\<close>

text \<open>
  \<open>re.findall(r'\:(.*?)\:', s)\<close>. After an opening colon the lazy group takes as few
  characters as it can up to the next colon; it cannot cross a newline, the one
  character \<open>.\<close> does not match. \<open>lazy_group\<close> is the group matched from the
  character after an opening colon, if the match succeeds.
\<close>

fun lazy_group :: "string \<Rightarrow> string option" where
  "lazy_group [] = None"
| "lazy_group (c # cs) =
     (if c = CHR '':'' then Some []
      else if c = CHR 0x0A then None
      else (case lazy_group cs of None \<Rightarrow> None | Some name \<Rightarrow> Some (c # name)))"

text \<open>
  A match found at an opening colon gives its group, and the search resumes after the
  closing colon; otherwise the search moves one character on.
\<close>

fun findall_colon_names :: "string \<Rightarrow> string list" where
  "findall_colon_names [] = []"
| "findall_colon_names (c # cs) =
     (if c = CHR '':''
      then (case lazy_group cs of
              Some name \<Rightarrow> name # findall_colon_names (drop (Suc (length name)) cs)
            | None \<Rightarrow> findall_colon_names cs)
      else findall_colon_names cs)"

text \<open>\<open>emoji.demojize\<close> belongs to another library and is a parameter.\<close>

definition gather_emojis :: "(string \<Rightarrow> string) \<Rightarrow> string \<Rightarrow> string list" where
  "gather_emojis demojize text =
     (let emoji_expaned_text = demojize text in findall_colon_names emoji_expaned_text)"

definition count_emojis :: "(string \<Rightarrow> string) \<Rightarrow> string \<Rightarrow> nat" where
  "count_emojis demojize text =
     (let list_of_emojis = gather_emojis demojize text in length list_of_emojis)"

section \<open>Dates\<close>

datatype date_regex = ddmmyyyy | mmddyyyy

text \<open>The dictionary \<open>regex_list\<close>; reading a key it does not hold raises \<open>KeyError\<close>.\<close>

definition regex_list :: "string \<rightharpoonup> date_regex" where
  "regex_list = [''dd/mm/yyyy'' \<mapsto> ddmmyyyy, ''mm/dd/yyyy'' \<mapsto> mmddyyyy]"

text \<open>The group \<open>(3[01]|[12][0-9]|0[1-9])\<close>.\<close>

definition day_group :: "char \<Rightarrow> char \<Rightarrow> bool" where
  "day_group a b =
     ((a = CHR ''3'' \<and> (b = CHR ''0'' \<or> b = CHR ''1''))
      \<or> ((a = CHR ''1'' \<or> a = CHR ''2'') \<and> is_digit b)
      \<or> (a = CHR ''0'' \<and> is_digit b \<and> b \<noteq> CHR ''0''))"

text \<open>The group \<open>(1[0-2]|0[1-9])\<close>.\<close>

definition month_group :: "char \<Rightarrow> char \<Rightarrow> bool" where
  "month_group a b =
     ((a = CHR ''1'' \<and> (b = CHR ''0'' \<or> b = CHR ''1'' \<or> b = CHR ''2''))
      \<or> (a = CHR ''0'' \<and> is_digit b \<and> b \<noteq> CHR ''0''))"

fun first_group :: "date_regex \<Rightarrow> char \<Rightarrow> char \<Rightarrow> bool" where
  "first_group ddmmyyyy = day_group"
| "first_group mmddyyyy = month_group"

fun second_group :: "date_regex \<Rightarrow> char \<Rightarrow> char \<Rightarrow> bool" where
  "second_group ddmmyyyy = month_group"
| "second_group mmddyyyy = day_group"

text \<open>
  A match of the pattern between its two \<open>\b\<close>, at the head of the string: two
  characters, a slash, two characters, a slash and four digits, and then the end of the
  text or a character outside \<open>\w\<close>. The result is the three groups.
\<close>

fun match_date :: "date_regex \<Rightarrow> string \<Rightarrow> (string \<times> string \<times> string) option" where
  "match_date r (a1 # a2 # s1 # b1 # b2 # s2 # y1 # y2 # y3 # y4 # rest) =
     (if first_group r a1 a2 \<and> s1 = CHR ''/'' \<and> second_group r b1 b2 \<and> s2 = CHR ''/''
         \<and> is_digit y1 \<and> is_digit y2 \<and> is_digit y3 \<and> is_digit y4
         \<and> (case rest of [] \<Rightarrow> True | c # _ \<Rightarrow> \<not> is_word_char c)
      then Some ([a1, a2], [b1, b2], [y1, y2, y3, y4])
      else None)"
| "match_date r _ = None"

text \<open>
  \<open>re.findall\<close> of a date pattern. \<open>after_word\<close> says that the character before the
  position of the search is in \<open>\w\<close>: the pattern starts with a digit, so its leading
  \<open>\b\<close> holds exactly when that is not so. After a match of ten characters the search
  goes on behind it.
\<close>

fun findall_dates :: "date_regex \<Rightarrow> bool \<Rightarrow> string \<Rightarrow> (string \<times> string \<times> string) list" where
  "findall_dates r after_word [] = []"
| "findall_dates r after_word (c # cs) =
     (case (if after_word then None else match_date r (c # cs)) of
        Some found \<Rightarrow> found # findall_dates r True (drop 9 cs)
      | None \<Rightarrow> findall_dates r (is_word_char c) cs)"

definition gather_dates :: "string \<Rightarrow> string \<Rightarrow> error + (string \<times> string \<times> string) list" where
  "gather_dates text date_format =
     (case regex_list date_format of
        None \<Rightarrow> Inl KeyError
      | Some regex \<Rightarrow> Inr (findall_dates regex False text))"

text \<open>\<open>count_dates\<close> has no parameter for the format: it calls \<open>gather_dates(text)\<close>.\<close>

definition count_dates :: "string \<Rightarrow> error + nat" where
  "count_dates text =
     (case gather_dates text ''dd/mm/yyyy'' of
        Inl e \<Rightarrow> Inl e
      | Inr dates \<Rightarrow> Inr (length dates))"

section \<open>Properties of the slab classifiers\<close>

text \<open>
  The scan returns the label of the first slab, in the order of the table, whose closed
  interval holds the score; what follows that slab in the table plays no part.
\<close>

lemma scan_slabs_first_match:
  assumes "\<forall>s \<in> set before. \<not> (real_of_int (fst (snd s)) \<le> v \<and> v \<le> real_of_int (snd (snd s)))"
    and "real_of_int lo \<le> v" and "v \<le> real_of_int hi"
  shows "scan_slabs (before @ (label, lo, hi) # rest) v = Some label"
  using assms by (induction before) auto

text \<open>
  Claim C3: each of the three classifiers, \<open>sentiment_polarity\<close>,
  \<open>sentiment_subjectivity\<close> and \<open>spelling_quality\<close>, given the sentinel
  \<open>NOT_APPLICABLE\<close>, returns \<open>NOT_APPLICABLE\<close>; the value does not depend on the table.
\<close>

theorem classify_not_applicable:
  "sentiment_polarity NotApplicable = Some NOT_APPLICABLE
   \<and> sentiment_subjectivity NotApplicable = Some NOT_APPLICABLE
   \<and> spelling_quality NotApplicable = Some NOT_APPLICABLE"
  by simp

lemma polarity_boundaries:
  assumes "Suc i < length sentiment_polarity_to_words_mapping"
    and "sentiment_polarity_to_words_mapping ! i = (label, lo, hi)"
    and "sentiment_polarity_to_words_mapping ! Suc i = (label', lo', hi')"
  shows "hi' = lo \<and> scan_slabs sentiment_polarity_to_words_mapping (real_of_int lo) = Some label
         \<and> label \<noteq> label'"
proof -
  from assms(1) have "i = 0 \<or> i = 1 \<or> i = 2 \<or> i = 3 \<or> i = 4 \<or> i = 5"
    by (simp add: sentiment_polarity_to_words_mapping_def) arith
  then show ?thesis
    using assms(2,3) by (elim disjE) (auto simp: sentiment_polarity_to_words_mapping_def)
qed

lemma subjectivity_boundaries:
  assumes "Suc i < length sentiment_subjectivity_to_words_mapping"
    and "sentiment_subjectivity_to_words_mapping ! i = (label, lo, hi)"
    and "sentiment_subjectivity_to_words_mapping ! Suc i = (label', lo', hi')"
  shows "hi' = lo \<and> scan_slabs sentiment_subjectivity_to_words_mapping (real_of_int lo) = Some label
         \<and> label \<noteq> label'"
proof -
  from assms(1) have "i = 0 \<or> i = 1 \<or> i = 2 \<or> i = 3 \<or> i = 4 \<or> i = 5"
    by (simp add: sentiment_subjectivity_to_words_mapping_def) arith
  then show ?thesis
    using assms(2,3) by (elim disjE) (auto simp: sentiment_subjectivity_to_words_mapping_def)
qed

lemma spelling_boundaries:
  assumes "Suc i < length spelling_quality_score_to_words_mapping"
    and "spelling_quality_score_to_words_mapping ! i = (label, lo, hi)"
    and "spelling_quality_score_to_words_mapping ! Suc i = (label', lo', hi')"
  shows "hi' = lo \<and> scan_slabs spelling_quality_score_to_words_mapping (real_of_int lo) = Some label
         \<and> label \<noteq> label'"
proof -
  from assms(1) have "i = 0 \<or> i = 1 \<or> i = 2 \<or> i = 3 \<or> i = 4 \<or> i = 5 \<or> i = 6"
    by (simp add: spelling_quality_score_to_words_mapping_def) arith
  then show ?thesis
    using assms(2,3) by (elim disjE) (auto simp: spelling_quality_score_to_words_mapping_def)
qed

text \<open>
  Claim C4: in each of the three tables, two adjacent slabs share a boundary: the upper
  bound of the later slab is the lower bound of the earlier one. When the normalized
  score equals that boundary, the scan returns the label of the slab listed first, which
  is another label than that of the later slab. So the normalized value 99 of the
  polarity table, which lies in "Very positive" [99,100] and in "Quite positive"
  [87,99], is "Very positive".
\<close>

theorem shared_boundary_first_slab_wins:
  assumes "table \<in> {sentiment_polarity_to_words_mapping,
                     sentiment_subjectivity_to_words_mapping,
                     spelling_quality_score_to_words_mapping}"
    and "Suc i < length table"
    and "table ! i = (label, lo, hi)"
    and "table ! Suc i = (label', lo', hi')"
  shows "hi' = lo \<and> scan_slabs table (real_of_int lo) = Some label \<and> label \<noteq> label'"
proof -
  from assms(1) consider
    (polarity) "table = sentiment_polarity_to_words_mapping"
    | (subjectivity) "table = sentiment_subjectivity_to_words_mapping"
    | (spelling) "table = spelling_quality_score_to_words_mapping"
    by auto
  then show ?thesis
  proof cases
    case polarity
    with assms(2-4) show ?thesis
      using polarity_boundaries [of i label lo hi label' lo' hi'] by simp
  next
    case subjectivity
    with assms(2-4) show ?thesis
      using subjectivity_boundaries [of i label lo hi label' lo' hi'] by simp
  next
    case spelling
    with assms(2-4) show ?thesis
      using spelling_boundaries [of i label lo hi label' lo' hi'] by simp
  qed
qed

theorem shared_boundary_first_slab_wins_witness:
  "sentiment_polarity_to_words_mapping ! 0 = (''Very positive'', 99, 100)
   \<and> sentiment_polarity_to_words_mapping ! Suc 0 = (''Quite positive'', 87, 99)
   \<and> scan_slabs sentiment_polarity_to_words_mapping 99 = Some ''Very positive''
   \<and> sentiment_polarity (Num (98 / 100)) = Some ''Very positive''"
proof -
  have t: "sentiment_polarity_to_words_mapping
             \<in> {sentiment_polarity_to_words_mapping,
                sentiment_subjectivity_to_words_mapping,
                spelling_quality_score_to_words_mapping}"
    by simp
  have n: "Suc 0 < length sentiment_polarity_to_words_mapping"
    by (simp add: sentiment_polarity_to_words_mapping_def)
  have a: "sentiment_polarity_to_words_mapping ! 0 = (''Very positive'', 99, 100)"
    by (simp add: sentiment_polarity_to_words_mapping_def)
  have b: "sentiment_polarity_to_words_mapping ! Suc 0 = (''Quite positive'', 87, 99)"
    by (simp add: sentiment_polarity_to_words_mapping_def)
  from shared_boundary_first_slab_wins [OF t n a b]
  have "scan_slabs sentiment_polarity_to_words_mapping 99 = Some ''Very positive''"
    by simp
  then show ?thesis using a b by simp
qed

text \<open>
  Claim C5: \<open>sentiment_polarity(1.0)\<close> is "Very positive", \<open>sentiment_polarity(-1.0)\<close>
  is "Very negative" and \<open>sentiment_polarity(0.0)\<close> is "Neutral": the scores are
  normalized to 100, 0 and 50 by \<open>(score + 1) / 2 * 100\<close> and the table is scanned in
  its order.
\<close>

theorem sentiment_polarity_concrete_cases:
  "sentiment_polarity (Num 1) = Some ''Very positive''
   \<and> sentiment_polarity (Num (- 1)) = Some ''Very negative''
   \<and> sentiment_polarity (Num 0) = Some ''Neutral''"
  by (simp add: sentiment_polarity_to_words_mapping_def)

section \<open>Properties of the character counters\<close>

text \<open>
  Claim C6: for every text \<open>t\<close>, \<open>count_alpha_numeric(t) + count_non_alpha_numeric(t)\<close>
  is \<open>len(t)\<close>, and a text with characters appended has at least the character count of
  the text.
\<close>

theorem alpha_numeric_partition:
  "count_alpha_numeric t + count_non_alpha_numeric t = length t
   \<and> characters_count t \<le> characters_count (t @ u)"
  by (simp add: count_alpha_numeric_def count_non_alpha_numeric_def gather_alpha_numeric_def
      gather_non_alpha_numeric_def characters_count_def sum_length_filter_compl)

section \<open>Properties of the summarisers\<close>

text \<open>
  Claim C8: each summariser returns its own categories unchanged:
  \<open>sentiment_polarity_summarised\<close> on "Positive", "Negative" and "Neutral",
  \<open>sentiment_subjectivity_summarised\<close> on "Subjective" and "Objective", and
  \<open>spelling_quality_summarised\<close> on "Good" and "Bad". So summarising one of them twice
  is summarising it once.
\<close>

theorem summarisers_stable_on_categories:
  "sentiment_polarity_summarised ''Positive'' = ''Positive''
   \<and> sentiment_polarity_summarised ''Negative'' = ''Negative''
   \<and> sentiment_polarity_summarised ''Neutral'' = ''Neutral''
   \<and> sentiment_subjectivity_summarised ''Subjective'' = ''Subjective''
   \<and> sentiment_subjectivity_summarised ''Objective'' = ''Objective''
   \<and> spelling_quality_summarised ''Good'' = ''Good''
   \<and> spelling_quality_summarised ''Bad'' = ''Bad''"
  by code_simp

text \<open>On every label, not only on the categories, summarising twice is summarising once.\<close>

lemma sentiment_polarity_summarised_idempotent:
  "sentiment_polarity_summarised (sentiment_polarity_summarised label)
     = sentiment_polarity_summarised label"
proof -
  have n: "is_in ''negative'' (lower ''Negative'')"
    by code_simp
  have p: "\<not> is_in ''negative'' (lower ''Positive'') \<and> is_in ''positive'' (lower ''Positive'')"
    by code_simp
  show ?thesis
    by (simp add: sentiment_polarity_summarised_def n p)
qed

lemma sentiment_subjectivity_summarised_idempotent:
  "sentiment_subjectivity_summarised (sentiment_subjectivity_summarised label)
     = sentiment_subjectivity_summarised label"
proof -
  have s: "\<not> is_in ''/'' ''Subjective'' \<and> is_in ''subjective'' (lower ''Subjective'')"
    by code_simp
  have ob: "\<not> is_in ''/'' ''Objective'' \<and> \<not> is_in ''subjective'' (lower ''Objective'')"
    by code_simp
  show ?thesis
    by (simp add: sentiment_subjectivity_summarised_def s ob)
qed

lemma spelling_quality_summarised_idempotent:
  "spelling_quality_summarised (spelling_quality_summarised label)
     = spelling_quality_summarised label"
proof -
  have g: "is_in ''good'' (lower ''Good'')"
    by code_simp
  have b: "\<not> is_in ''good'' (lower ''Bad'')"
    by code_simp
  show ?thesis
    by (simp add: spelling_quality_summarised_def g b)
qed

section \<open>Properties of the sentence counter\<close>

text \<open>
  Where the claim about sentences holds: the empty text has no sentence, and a text
  that is not empty and has no \<open>.\<close> is one sentence, the whole text.
\<close>

lemma count_sentences_empty: "count_sentences [] = 0 \<and> spec_count_sentences [] = 0"
  by (simp add: count_sentences_def gather_sentences_def spec_count_sentences_def)

lemma findall_non_dots_no_dot:
  assumes "CHR ''.'' \<notin> set t" and "t \<noteq> []"
  shows "findall_non_dots t = [t, []]"
proof -
  from assms(2) obtain c cs where shape: "t = c # cs"
    by (cases t) auto
  with assms(1) have "c \<noteq> CHR ''.''" and all: "\<forall>x \<in> set cs. x \<noteq> CHR ''.''"
    by auto
  from all have run: "takeWhile (\<lambda>x. x \<noteq> CHR ''.'') cs = cs"
    and rest: "dropWhile (\<lambda>x. x \<noteq> CHR ''.'') cs = []"
    by simp_all
  from \<open>c \<noteq> CHR ''.''\<close> show ?thesis
    by (simp only: shape findall_non_dots.simps run rest if_False)
qed

lemma gather_sentences_no_dot:
  assumes "CHR ''.'' \<notin> set t" and "t \<noteq> []"
  shows "gather_sentences t = [t] \<and> count_sentences t = 1"
  using assms by (simp add: count_sentences_def gather_sentences_def findall_non_dots_no_dot)

lemma split_on_dot_no_dot: "CHR ''.'' \<notin> set t \<Longrightarrow> split_on_dot t = [t]"
  by (induction t) auto

lemma spec_count_sentences_no_dot:
  "CHR ''.'' \<notin> set t \<Longrightarrow> t \<noteq> [] \<Longrightarrow> spec_count_sentences t = 1"
  by (simp add: spec_count_sentences_def split_on_dot_no_dot)

text \<open>
  Where it fails: a final \<open>.\<close> leaves two empty matches side by side at the end of the
  list, and the loop, which steps over the element that follows each deletion, keeps
  the second. A sentence followed by its full stop counts as two, while the split with
  every blank run dropped counts the full stop for nothing.
\<close>

lemma findall_non_dots_final_dot:
  assumes "CHR ''.'' \<notin> set t" and "t \<noteq> []"
  shows "findall_non_dots (t @ ''.'') = [t, [], []]"
proof -
  from assms(2) obtain c cs where shape: "t = c # cs"
    by (cases t) auto
  with assms(1) have c: "c \<noteq> CHR ''.''" and all: "\<forall>x \<in> set cs. x \<noteq> CHR ''.''"
    by auto
  from all have run: "takeWhile (\<lambda>x. x \<noteq> CHR ''.'') (cs @ ''.'') = cs"
    and rest: "dropWhile (\<lambda>x. x \<noteq> CHR ''.'') (cs @ ''.'') = ''.''"
    by (simp_all add: takeWhile_append2 dropWhile_append2)
  have "findall_non_dots (c # cs @ ''.'') = (c # cs) # findall_non_dots ''.''"
    using c by (simp only: findall_non_dots.simps run rest if_False)
  then show ?thesis
    by (simp add: shape)
qed

lemma count_sentences_final_dot:
  assumes "CHR ''.'' \<notin> set t" and "t \<noteq> []"
  shows "gather_sentences (t @ ''.'') = [t, []] \<and> count_sentences (t @ ''.'') = 2"
  using assms by (simp add: count_sentences_def gather_sentences_def findall_non_dots_final_dot)

lemma split_on_dot_not_empty: "split_on_dot t \<noteq> []"
  by (induction t) (auto split: list.splits)

lemma split_on_dot_append_dot: "split_on_dot (t @ ''.'') = split_on_dot t @ [[]]"
  by (induction t) (auto simp: split_on_dot_not_empty split: list.splits)

lemma spec_count_sentences_final_dot:
  "spec_count_sentences (t @ ''.'') = spec_count_sentences t"
  by (simp add: spec_count_sentences_def split_on_dot_append_dot)

text \<open>
  Claim C2: \<open>count_sentences\<close> is to return the number of runs obtained by splitting the
  text on \<open>.\<close> with all blank results dropped. On the text \<open>a.\<close> it does not:
  \<open>gather_sentences\<close> returns the run \<open>a\<close> and a blank, so \<open>count_sentences\<close> is 2,
  where the split with the blanks dropped has the one run \<open>a\<close>.
\<close>

theorem count_sentences_keeps_blank_after_final_dot:
  "gather_sentences ''a.'' = [''a'', []]
   \<and> count_sentences ''a.'' = 2
   \<and> spec_count_sentences ''a.'' = 1"
  by (simp add: count_sentences_def gather_sentences_def spec_count_sentences_def)

section \<open>Properties of the spelling quality score\<close>

text \<open>
  A text that is not blank and whose tokens all lie in \<open>string.punctuation\<close> has no
  word checked; its average of words per sentence is zero and the division by it raises.
\<close>

lemma spellcheck_loop_only_punctuation:
  "\<forall>w \<in> set ws. is_in w string_punctuation \<Longrightarrow> spellcheck_loop spellcheck ws m n = Inr (m, n)"
  by (induction ws) auto

lemma spelling_quality_score_no_words:
  assumes "strip t \<noteq> []"
    and "\<forall>w \<in> set (word_tokenize (lower t)). is_in w string_punctuation"
  shows "spelling_quality_score word_tokenize spellcheck t = Inl ZeroDivisionError"
proof -
  from assms(1) have "t \<noteq> []"
    by (auto simp: strip_def)
  with assms show ?thesis
    by (simp add: spelling_quality_score_def spellcheck_loop_only_punctuation Let_def)
qed

text \<open>
  Claim C1: on a text whose tokens are all punctuation, such as \<open>.\<close>,
  \<open>spelling_quality_score\<close> is to be guarded against the division by zero and to return
  \<open>NOT_APPLICABLE\<close> or zero. It is not guarded: on the text \<open>.\<close>, which the tokenizer
  gives back as the one token \<open>.\<close>, it raises \<open>ZeroDivisionError\<close>, whatever the spell
  checker is.
\<close>

theorem spelling_quality_score_full_stop_raises:
  "spelling_quality_score (\<lambda>t. [''.'']) spellcheck ''.'' = Inl ZeroDivisionError"
  by (simp add: spelling_quality_score_def strip_def is_space_def string_punctuation_def Let_def)

text \<open>
  Claim C9: whenever \<open>spelling_quality_score\<close> returns, for whatever tokenizer, spell
  checker and text, the result is \<open>NOT_APPLICABLE\<close> or a number that is not negative: a
  negative ratio \<open>(avg_words_per_sentence - misspelt_words_count) /
  avg_words_per_sentence\<close> is replaced by 0.
\<close>

theorem spelling_quality_score_non_negative:
  assumes "spelling_quality_score word_tokenize spellcheck t = Inr result"
  shows "result = NotApplicable \<or> (\<exists>x. result = Num x \<and> 0 \<le> x)"
  using assms
  by (auto simp: spelling_quality_score_def Let_def split: if_splits sum.splits prod.splits)

text \<open>
  Three misspelt words in two sentences: the average is 3/2, the ratio is -1, and the
  score is 0.
\<close>

theorem spelling_quality_score_non_negative_witness:
  "spelling_quality_score (\<lambda>t. [''helo'', ''wrld'', ''.'', ''agin'']) (\<lambda>w. [(w, 1 / 2)])
     ''helo wrld. agin'' = Inr (Num 0)
   \<and> (Num 0 = NotApplicable \<or> (\<exists>x. Num 0 = Num x \<and> 0 \<le> x))"
proof -
  have c: "count_sentences ''helo wrld. agin'' = 2"
    by (simp add: count_sentences_def gather_sentences_def)
  have e: "spelling_quality_score (\<lambda>t. [''helo'', ''wrld'', ''.'', ''agin'']) (\<lambda>w. [(w, 1 / 2)])
             ''helo wrld. agin'' = Inr (Num 0)"
    by (simp add: spelling_quality_score_def c strip_def is_space_def string_punctuation_def Let_def)
  from spelling_quality_score_non_negative [OF e] e show ?thesis
    by simp
qed

section \<open>Properties of the emoji counter\<close>

text \<open>
  Claim C10: \<open>count_emojis\<close> counts the names between colons in the text that
  \<open>demojize\<close> returns. The text \<open>a :b: c\<close> has no emoji, so a transliteration leaves
  it as it is; it has a word between colons, and \<open>count_emojis\<close> returns 1 on it.
\<close>

theorem count_emojis_counts_colon_words:
  assumes "demojize ''a :b: c'' = ''a :b: c''"
  shows "gather_emojis demojize ''a :b: c'' = [''b'']
         \<and> count_emojis demojize ''a :b: c'' = 1
         \<and> 0 < count_emojis demojize ''a :b: c''"
  using assms by (simp add: count_emojis_def gather_emojis_def)

theorem count_emojis_counts_colon_words_witness:
  "gather_emojis (\<lambda>t. t) ''a :b: c'' = [''b'']
   \<and> count_emojis (\<lambda>t. t) ''a :b: c'' = 1
   \<and> 0 < count_emojis (\<lambda>t. t) ''a :b: c''"
  using count_emojis_counts_colon_words [of "\<lambda>t. t"] by simp

section \<open>Properties of the date counter\<close>

lemma gather_dates_supported:
  "gather_dates t ''dd/mm/yyyy'' = Inr (findall_dates ddmmyyyy False t)
   \<and> gather_dates t ''mm/dd/yyyy'' = Inr (findall_dates mmddyyyy False t)"
  by (simp add: gather_dates_def regex_list_def)

text \<open>
  \<open>count_dates\<close> passes no format on, so it reads the dictionary at \<open>dd/mm/yyyy\<close> only
  and never raises.
\<close>

lemma count_dates_never_raises:
  "count_dates t = Inr (length (findall_dates ddmmyyyy False t))"
  by (simp add: count_dates_def gather_dates_supported)

lemma gather_dates_example:
  "gather_dates ''born 31/12/1999 and 02/29/2020'' ''dd/mm/yyyy'' = Inr [(''31'', ''12'', ''1999'')]"
  by (simp add: gather_dates_supported day_group_def month_group_def is_digit_def
      is_word_char_def is_alpha_numeric_def)

text \<open>
  Claim C7: for every text, \<open>gather_dates\<close> called with a format other than
  \<open>dd/mm/yyyy\<close> and \<open>mm/dd/yyyy\<close> raises \<open>KeyError\<close>; it does not return an empty
  list.
\<close>

theorem gather_dates_unsupported_format:
  assumes "date_format \<noteq> ''dd/mm/yyyy''" and "date_format \<noteq> ''mm/dd/yyyy''"
  shows "gather_dates t date_format = Inl KeyError"
  using assms by (simp add: gather_dates_def regex_list_def)

theorem gather_dates_unsupported_format_witness:
  "gather_dates ''born 31/12/1999'' ''yyyy-mm-dd'' = Inl KeyError"
  using gather_dates_unsupported_format [of "''yyyy-mm-dd''" "''born 31/12/1999''"] by simp

end
